theory Spec2Isabelle
  imports Main "HOL-Library.Word"
begin

section \<open>Severity levels\<close>

text \<open>
  \<^verbatim>\<open>enum class log_level : uint8_t { DEBUG, INFO, WARNING, ERROR, FATAL, UNKNOWN }\<close>
  (logging.hpp). The underlying type is an 8-bit unsigned integer, so a value of the
  level type is any byte; the six enumerators are the bytes 0 to 5.
\<close>

type_synonym log_level = "8 word"

definition DEBUG :: log_level where "DEBUG = 0"
definition INFO :: log_level where "INFO = 1"
definition WARNING :: log_level where "WARNING = 2"
definition ERROR :: log_level where "ERROR = 3"
definition FATAL :: log_level where "FATAL = 4"
definition UNKNOWN :: log_level where "UNKNOWN = 5"

lemmas log_level_defs = DEBUG_def INFO_def WARNING_def ERROR_def FATAL_def UNKNOWN_def

text \<open>
  \<^verbatim>\<open>logLevelToString\<close>: a switch over the five named severities with a default branch.
\<close>

definition logLevelToString :: "log_level \<Rightarrow> string" where
  "logLevelToString lvl =
     (if lvl = DEBUG then ''DEBUG''
      else if lvl = INFO then ''INFO''
      else if lvl = WARNING then ''WARNING''
      else if lvl = ERROR then ''ERROR''
      else if lvl = FATAL then ''FATAL''
      else ''UNKNOWN'')"

section \<open>Formatting helpers\<close>

text \<open>
  \<^verbatim>\<open>formatField(input, width)\<close>: \<^verbatim>\<open>input.substr(0, width)\<close> when the input is longer
  than the width, otherwise the input followed by \<^verbatim>\<open>width - input.length()\<close> spaces.
  The subtraction is only reached when \<^verbatim>\<open>input.length() <= width\<close>, so it never wraps.
  Lengths are natural numbers: the limit of the address space is not modelled.
\<close>

definition formatField :: "string \<Rightarrow> nat \<Rightarrow> string" where
  "formatField input width =
     (if length input > width then take width input
      else input @ replicate (width - length input) CHR '' '')"

text \<open>The default argument \<^verbatim>\<open>width = 15\<close> of the declaration in logging.hpp.\<close>

definition default_width :: nat where
  "default_width = 15"

section \<open>The environment of the process\<close>

text \<open>
  What the logger reads and writes outside its own object: the file system, the two
  standard streams and the clock.
  \<^item> \<open>openable w p\<close>: whether opening the path \<open>p\<close> for appending succeeds.
  \<^item> \<open>files w p\<close>: the content of the file \<open>p\<close>, \<open>None\<close> when there is no such file.
  \<^item> \<open>cout w\<close>, \<open>cerr w\<close>: everything written so far to standard output and to standard
    error.
  The result of \<^verbatim>\<open>getCurrentTime()\<close> (the wall clock in the local time zone) is an
  argument \<open>current_time\<close> of every operation that reads it. A write to an open stream
  is taken to succeed and to reach the file at once (buffering and full disks are not
  modelled).
\<close>

record world =
  openable :: "string \<Rightarrow> bool"
  files :: "string \<Rightarrow> string option"
  cout :: string
  cerr :: string

text \<open>
  The member \<^verbatim>\<open>std::ofstream log_file\<close> is \<open>None\<close> when no file is attached and \<open>Some p\<close>
  when the stream is open on the path \<open>p\<close>.
\<close>

type_synonym ofstream = "string option"

definition is_open :: "ofstream \<Rightarrow> bool" where
  "is_open f = (f \<noteq> None)"

text \<open>
  \<^verbatim>\<open>log_file.open(path, std::ios::app)\<close> on a stream with no file attached (both call sites
  are in that state: the constructor's stream is fresh, \<^verbatim>\<open>change_log_file\<close> closes first).
  A successful open creates the file when it is missing and keeps its content otherwise.
\<close>

definition ofstream_open :: "string \<Rightarrow> world \<Rightarrow> ofstream \<times> world" where
  "ofstream_open path w =
     (if openable w path
      then (Some path,
            w\<lparr>files := (files w)(path \<mapsto> (case files w path of None \<Rightarrow> [] | Some c \<Rightarrow> c))\<rparr>)
      else (None, w))"

text \<open>
  \<^verbatim>\<open>log_file.seekp(0, std::ios_base::end); log_file << text\<close> on the stream open on \<open>path\<close>.
\<close>

definition ofstream_append :: "string \<Rightarrow> string \<Rightarrow> world \<Rightarrow> world" where
  "ofstream_append path txt w =
     w\<lparr>files := (files w)(path \<mapsto> (case files w path of None \<Rightarrow> [] | Some c \<Rightarrow> c) @ txt)\<rparr>"

section \<open>The logging class\<close>

text \<open>
  The data members of \<^verbatim>\<open>class logging\<close> (logging.hpp). The two static members are part
  of the process state below.
\<close>

record logging =
  print_log :: bool
  filename :: string
  log_file :: ofstream
  level :: log_level

text \<open>
  \<^verbatim>\<open>void logging::add_log(log_level level, const char* fun_name, std::string message)\<close>.
  The object \<^verbatim>\<open>*this\<close> and the environment are passed in and returned.
\<close>

definition add_log ::
  "string \<Rightarrow> log_level \<Rightarrow> string \<Rightarrow> string \<Rightarrow> logging \<times> world \<Rightarrow> logging \<times> world" where
  "add_log current_time lvl fun_name message = (\<lambda>(this, w).
     let log_message = ''['' @ formatField current_time default_width @ ''] ''
                     @ ''['' @ formatField (logLevelToString lvl) default_width @ ''] ''
                     @ ''['' @ formatField fun_name default_width @ ''] ''
                     @ message @ ''\<newline>'';
         w1 = (if print_log this then w\<lparr>cout := cout w @ log_message\<rparr> else w);
         w2 = (case log_file this of
                 Some path \<Rightarrow> ofstream_append path log_message w1
               | None \<Rightarrow> w1)
     in (this, w2))"

text \<open>
  \<^verbatim>\<open>void logging::add_log(const char* fun_name, std::string message)\<close>: the second overload,
  its body written out as in the source; it reads the member \<^verbatim>\<open>level\<close>.
\<close>

definition add_log2 ::
  "string \<Rightarrow> string \<Rightarrow> string \<Rightarrow> logging \<times> world \<Rightarrow> logging \<times> world" where
  "add_log2 current_time fun_name message = (\<lambda>(this, w).
     let log_message = ''['' @ formatField current_time default_width @ ''] ''
                     @ ''['' @ formatField (logLevelToString (level this)) default_width @ ''] ''
                     @ ''['' @ formatField fun_name default_width @ ''] ''
                     @ message @ ''\<newline>'';
         w1 = (if print_log this then w\<lparr>cout := cout w @ log_message\<rparr> else w);
         w2 = (case log_file this of
                 Some path \<Rightarrow> ofstream_append path log_message w1
               | None \<Rightarrow> w1)
     in (this, w2))"

text \<open>\<^verbatim>\<open>void logging::set_log_level(log_level level)\<close>.\<close>

definition set_log_level :: "log_level \<Rightarrow> logging \<times> world \<Rightarrow> logging \<times> world" where
  "set_log_level lvl = (\<lambda>(this, w). (this\<lparr>level := lvl\<rparr>, w))"

text \<open>
  The constructor \<^verbatim>\<open>logging::logging(std::string filename, bool print_log)\<close>. Its two
  parameters have the names of the members they initialise, so inside the body the
  names \<^verbatim>\<open>filename\<close> and \<^verbatim>\<open>print_log\<close> denote the parameters: the suffix is appended to
  the parameter \<open>filename_arg\<close>, and the assignment \<^verbatim>\<open>print_log = false\<close> of the failure
  branch writes the parameter \<open>print_log_arg\<close>, which is dropped when the constructor
  returns. The member \<^verbatim>\<open>level\<close> has no initialiser: the object starts with whatever the
  storage holds, the argument \<open>indeterminate\<close>.
\<close>

definition logging_ctor ::
  "log_level \<Rightarrow> string \<Rightarrow> string \<Rightarrow> bool \<Rightarrow> world \<Rightarrow> logging \<times> world" where
  "logging_ctor indeterminate current_time filename_arg print_log_arg w =
     (let this = \<lparr>print_log = print_log_arg, filename = filename_arg,
                  log_file = None, level = indeterminate\<rparr>;
          (this1, w1) =
            (if filename_arg \<noteq> [] then
               let filename_arg1 = (if CHR ''.'' \<notin> set filename_arg
                                    then filename_arg @ ''.log'' else filename_arg);
                   (f, w') = ofstream_open filename_arg1 w;
                   this' = this\<lparr>log_file := f\<rparr>
               in if \<not> is_open f
                  then let w'' = w'\<lparr>cerr := cerr w' @ ''Can't open log file ''
                                                @ filename_arg1 @ ''\<newline>''\<rparr>;
                           print_log_arg1 = False
                       in (this', w'')
                  else (this', w')
             else (this, w))
      in add_log current_time UNKNOWN ''New logger''
           ''============================================'' (this1, w1))"

text \<open>
  \<^verbatim>\<open>void logging::change_log_file(const std::string& new_filename)\<close>. Here
  \<^verbatim>\<open>filename\<close> and \<^verbatim>\<open>print_log\<close> are the members.
\<close>

definition change_log_file :: "string \<Rightarrow> logging \<times> world \<Rightarrow> logging \<times> world" where
  "change_log_file new_filename = (\<lambda>(this, w).
     let this1 = (if is_open (log_file this) then this\<lparr>log_file := None\<rparr> else this);
         this2 = this1\<lparr>filename := new_filename\<rparr>
     in if filename this2 \<noteq> [] then
          let this3 = (if CHR ''.'' \<notin> set (filename this2)
                       then this2\<lparr>filename := filename this2 @ ''.log''\<rparr> else this2);
              (f, w') = ofstream_open (filename this3) w;
              this4 = this3\<lparr>log_file := f\<rparr>
          in if \<not> is_open f
             then (this4\<lparr>print_log := False\<rparr>,
                   w'\<lparr>cerr := cerr w' @ ''Can't open log file '' @ filename this4 @ ''\<newline>''\<rparr>)
             else (this4, w')
        else (this2, w))"

section \<open>The process-wide accessor\<close>

text \<open>
  The state of the process: every \<^verbatim>\<open>logging\<close> object constructed so far (\<open>objects\<close>, an
  object's address is its index), the static member
  \<^verbatim>\<open>std::unique_ptr<logging> logging::instance\<close> (\<open>None\<close> is the null pointer) and the
  environment. The constructor is private and copying and moving are deleted, so
  \<^verbatim>\<open>get_instance\<close> is the only place where an object is made.
\<close>

record process =
  objects :: "logging list"
  "instance" :: "nat option"
  env :: world

definition process0 :: "world \<Rightarrow> process" where
  "process0 w = \<lparr>objects = [], instance = None, env = w\<rparr>"

text \<open>
  \<^verbatim>\<open>logging* logging::get_instance(std::string filename, bool print_log)\<close>, run as one
  step (the lock makes it so). It returns the address and the new state.
\<close>

definition get_instance ::
  "log_level \<Rightarrow> string \<Rightarrow> string \<Rightarrow> bool \<Rightarrow> process \<Rightarrow> nat \<times> process" where
  "get_instance indeterminate current_time filename_arg print_log_arg p =
     (case instance p of
        None \<Rightarrow>
          let (obj, w) = logging_ctor indeterminate current_time filename_arg print_log_arg (env p);
              a = length (objects p)
          in (a, p\<lparr>objects := objects p @ [obj], instance := Some a, env := w\<rparr>)
      | Some a \<Rightarrow> (a, p))"

text \<open>
  Calls a client can make. A member function is called through the pointer the accessor
  returned (\<^verbatim>\<open>logger::log->add_log(...)\<close> in main.cpp), so its receiver is the instance.
\<close>

datatype member_call =
    Add_log string log_level string string
  | Add_log2 string string string
  | Set_log_level log_level
  | Change_log_file string

datatype call =
    Get_instance log_level string string bool
  | On_instance member_call

fun member_fn :: "member_call \<Rightarrow> logging \<times> world \<Rightarrow> logging \<times> world" where
  "member_fn (Add_log current_time lvl fun_name message) = add_log current_time lvl fun_name message"
| "member_fn (Add_log2 current_time fun_name message) = add_log2 current_time fun_name message"
| "member_fn (Set_log_level lvl) = set_log_level lvl"
| "member_fn (Change_log_file new_filename) = change_log_file new_filename"

fun member_fns :: "member_call list \<Rightarrow> logging \<times> world \<Rightarrow> logging \<times> world" where
  "member_fns [] s = s"
| "member_fns (c # cs) s = member_fns cs (member_fn c s)"

text \<open>
  A member call on the instance. Before the first \<^verbatim>\<open>get_instance\<close> there is no pointer
  to call through, and the state stays as it is.
\<close>

definition on_instance :: "member_call \<Rightarrow> process \<Rightarrow> process" where
  "on_instance c p =
     (case instance p of
        None \<Rightarrow> p
      | Some a \<Rightarrow>
          if a < length (objects p)
          then let (obj, w) = member_fn c (objects p ! a, env p)
               in p\<lparr>objects := (objects p)[a := obj], env := w\<rparr>
          else p)"

fun step :: "call \<Rightarrow> process \<Rightarrow> process" where
  "step (Get_instance indeterminate current_time filename_arg print_log_arg) p =
     snd (get_instance indeterminate current_time filename_arg print_log_arg p)"
| "step (On_instance c) p = on_instance c p"

fun run :: "call list \<Rightarrow> process \<Rightarrow> process" where
  "run [] p = p"
| "run (c # cs) p = run cs (step c p)"

section \<open>Specification-side functions\<close>

text \<open>
  The line the specification gives for one record: three bracketed columns of width 15
  (time, level, origin), the message as it is, and a line terminator.
\<close>

definition expected_line :: "string \<Rightarrow> log_level \<Rightarrow> string \<Rightarrow> string \<Rightarrow> string" where
  "expected_line current_time lvl origin message =
     ''['' @ formatField current_time 15 @ ''] [''
     @ formatField (logLevelToString lvl) 15 @ ''] [''
     @ formatField origin 15 @ ''] '' @ message @ ''\<newline>''"

text \<open>
  The text a sequence of member calls is expected to emit on a sink that stays active,
  given the level stored when the sequence starts.
\<close>

fun expected_lines :: "log_level \<Rightarrow> member_call list \<Rightarrow> string" where
  "expected_lines stored [] = []"
| "expected_lines stored (Add_log t lvl origin message # cs) =
     expected_line t lvl origin message @ expected_lines stored cs"
| "expected_lines stored (Add_log2 t origin message # cs) =
     expected_line t stored origin message @ expected_lines stored cs"
| "expected_lines stored (Set_log_level lvl # cs) = expected_lines lvl cs"
| "expected_lines stored (Change_log_file new_filename # cs) = expected_lines stored cs"

fun is_change :: "member_call \<Rightarrow> bool" where
  "is_change (Change_log_file new_filename) = True"
| "is_change c = False"

text \<open>The path a caller-supplied, non-empty name stands for: the name itself when it
  has a dot, the name with the suffix \<open>.log\<close> otherwise.\<close>

definition target_path :: "string \<Rightarrow> string" where
  "target_path n = (if CHR ''.'' \<in> set n then n else n @ ''.log'')"

text \<open>The process holds exactly one \<^verbatim>\<open>logging\<close> object, and \<^verbatim>\<open>instance\<close> points to it.\<close>

definition single :: "process \<Rightarrow> bool" where
  "single p = (instance p = Some 0 \<and> length (objects p) = 1)"

section \<open>Properties of the helpers\<close>

lemma formatField_length: "length (formatField input width) = width"
  by (simp add: formatField_def)

text \<open>
  Claim C9. For every input string and every width, \<open>formatField\<close> returns a string
  of exactly \<open>width\<close> characters: the first \<open>width\<close> characters of the input when the
  input is longer than the width, otherwise the input followed by spaces on the right.
  On \<open>abc\<close> and width 15 the result is \<open>abc\<close> and 12 spaces; on
  \<open>a_very_long_origin_name\<close> it is the first 15 characters. The function takes and
  returns values only: it has no access to any stream or file.
\<close>

theorem formatField_exact_width:
  "length (formatField input width) = width
   \<and> (length input > width \<longrightarrow> formatField input width = take width input)
   \<and> (length input \<le> width \<longrightarrow>
        formatField input width = input @ replicate (width - length input) CHR '' '')
   \<and> formatField ''abc'' 15 = ''abc            ''
   \<and> formatField ''a_very_long_origin_name'' 15 = take 15 ''a_very_long_origin_name''
   \<and> formatField ''a_very_long_origin_name'' 15 = ''a_very_long_ori''"
proof -
  have "formatField ''abc'' 15 = ''abc            ''"
    by code_simp
  moreover have "formatField ''a_very_long_origin_name'' 15 = ''a_very_long_ori''"
    by code_simp
  moreover have "take 15 ''a_very_long_origin_name'' = ''a_very_long_ori''"
    by code_simp
  ultimately show ?thesis
    by (simp add: formatField_def)
qed

theorem formatField_exact_width_witness:
  "length (formatField ''abcd'' 6) = 6
   \<and> formatField ''abcd'' 6 = ''abcd  ''
   \<and> formatField ''abcdefgh'' 6 = ''abcdef''"
proof -
  have short: "length ''abcd'' \<le> (6::nat)" and long: "length ''abcdefgh'' > (6::nat)"
    by simp_all
  have pad: "''abcd'' @ replicate (6 - length ''abcd'') CHR '' '' = ''abcd  ''"
    by code_simp
  have cut: "take 6 ''abcdefgh'' = ''abcdef''"
    by code_simp
  from formatField_exact_width [of "''abcd''" 6] short pad
  have "length (formatField ''abcd'' 6) = 6 \<and> formatField ''abcd'' 6 = ''abcd  ''"
    by metis
  moreover from formatField_exact_width [of "''abcdefgh''" 6] long cut
  have "formatField ''abcdefgh'' 6 = ''abcdef''"
    by metis
  ultimately show ?thesis
    by blast
qed

text \<open>
  Claim C10. \<open>logLevelToString\<close> is total: each of the five defined severities DEBUG,
  INFO, WARNING, ERROR and FATAL maps to its own non-empty upper-case name, and every
  other value of the level type (the enumerator UNKNOWN and every byte above it) maps
  to \<open>UNKNOWN\<close>.
\<close>

theorem logLevelToString_total:
  "logLevelToString DEBUG = ''DEBUG''
   \<and> logLevelToString INFO = ''INFO''
   \<and> logLevelToString WARNING = ''WARNING''
   \<and> logLevelToString ERROR = ''ERROR''
   \<and> logLevelToString FATAL = ''FATAL''
   \<and> (\<forall>lvl. lvl \<notin> {DEBUG, INFO, WARNING, ERROR, FATAL} \<longrightarrow> logLevelToString lvl = ''UNKNOWN'')
   \<and> (\<forall>lvl. logLevelToString lvl \<noteq> [])"
  by (simp add: logLevelToString_def log_level_defs)

theorem logLevelToString_total_witness:
  "logLevelToString UNKNOWN = ''UNKNOWN'' \<and> logLevelToString 200 = ''UNKNOWN''
   \<and> logLevelToString 3 = ''ERROR''"
proof -
  have a: "UNKNOWN \<notin> {DEBUG, INFO, WARNING, ERROR, FATAL}"
    by (simp add: log_level_defs)
  have b: "(200 :: log_level) \<notin> {DEBUG, INFO, WARNING, ERROR, FATAL}"
    by (simp add: log_level_defs)
  have c: "(3 :: log_level) = ERROR"
    by (simp add: ERROR_def)
  from logLevelToString_total a b c show ?thesis
    by metis
qed


section \<open>What each operation does\<close>

lemma add_log_eq:
  "add_log t lvl f m (l, w) =
     (l, (case log_file l of Some p \<Rightarrow> ofstream_append p (expected_line t lvl f m) | None \<Rightarrow> id)
           (if print_log l then w\<lparr>cout := cout w @ expected_line t lvl f m\<rparr> else w))"
  by (simp add: add_log_def expected_line_def default_width_def Let_def split: option.split)

lemma add_log2_eq: "add_log2 t f m (l, w) = add_log t (level l) f m (l, w)"
  by (simp add: add_log_def add_log2_def)

lemma logging_ctor_eq:
  "fname \<noteq> [] \<Longrightarrow>
   logging_ctor i t fname b w =
     add_log t UNKNOWN ''New logger'' ''============================================''
       (\<lparr>print_log = b, filename = fname,
          log_file = (if openable w (target_path fname) then Some (target_path fname) else None),
          level = i\<rparr>,
        if openable w (target_path fname)
        then w\<lparr>files := (files w)(target_path fname \<mapsto>
                 (case files w (target_path fname) of None \<Rightarrow> [] | Some c \<Rightarrow> c))\<rparr>
        else w\<lparr>cerr := cerr w @ ''Can't open log file '' @ target_path fname @ ''\<newline>''\<rparr>)"
  by (simp add: logging_ctor_def target_path_def ofstream_open_def is_open_def Let_def)

lemma logging_ctor_empty:
  "logging_ctor i t [] b w =
     add_log t UNKNOWN ''New logger'' ''============================================''
       (\<lparr>print_log = b, filename = [], log_file = None, level = i\<rparr>, w)"
  by (simp add: logging_ctor_def Let_def)

lemma change_log_file_eq:
  "n \<noteq> [] \<Longrightarrow>
   change_log_file n (l, w) =
     (if openable w (target_path n)
      then (l\<lparr>filename := target_path n, log_file := Some (target_path n)\<rparr>,
            w\<lparr>files := (files w)(target_path n \<mapsto>
                 (case files w (target_path n) of None \<Rightarrow> [] | Some c \<Rightarrow> c))\<rparr>)
      else (l\<lparr>filename := target_path n, log_file := None, print_log := False\<rparr>,
            w\<lparr>cerr := cerr w @ ''Can't open log file '' @ target_path n @ ''\<newline>''\<rparr>))"
  by (simp add: change_log_file_def target_path_def ofstream_open_def is_open_def Let_def)

lemma change_log_file_empty:
  "change_log_file [] (l, w) = (l\<lparr>filename := [], log_file := None\<rparr>, w)"
  by (cases "log_file l") (simp_all add: change_log_file_def is_open_def Let_def)

text \<open>
  The constructor never assigns the member \<open>print_log\<close> after initialising it: the object
  keeps the caller's flag whether or not the file opens.
\<close>

lemma logging_ctor_print_log: "print_log (fst (logging_ctor i t fname b w)) = b"
  by (cases "fname = []") (simp_all add: logging_ctor_eq logging_ctor_empty add_log_eq)

text \<open>A failed reopen in \<open>change_log_file\<close> switches the console off and leaves no file.\<close>

lemma change_log_file_failed:
  "n \<noteq> [] \<Longrightarrow> \<not> openable w (target_path n) \<Longrightarrow>
   \<not> print_log (fst (change_log_file n (l, w))) \<and> log_file (fst (change_log_file n (l, w))) = None"
  by (simp add: change_log_file_eq)

section \<open>Sequences of member calls\<close>

lemma silent_member_fns:
  "\<not> print_log l \<Longrightarrow> log_file l = None \<Longrightarrow> list_all (\<lambda>c. \<not> is_change c) cs \<Longrightarrow>
   snd (member_fns cs (l, w)) = w
   \<and> \<not> print_log (fst (member_fns cs (l, w)))
   \<and> log_file (fst (member_fns cs (l, w))) = None"
proof (induction cs arbitrary: l)
  case Nil
  then show ?case by simp
next
  case (Cons c cs)
  then have nc: "\<not> is_change c" and rest: "list_all (\<lambda>c. \<not> is_change c) cs"
    by simp_all
  obtain l' where "member_fn c (l, w) = (l', w)" and "\<not> print_log l'" and "log_file l' = None"
    using Cons.prems(1,2) nc by (cases c) (simp_all add: add_log_eq add_log2_eq set_log_level_def)
  with Cons.IH [of l'] rest show ?case
    by simp
qed

lemma file_member_fns:
  "log_file l = Some p \<Longrightarrow> files w p = Some c0 \<Longrightarrow> list_all (\<lambda>c. \<not> is_change c) cs \<Longrightarrow>
   files (snd (member_fns cs (l, w))) p = Some (c0 @ expected_lines (level l) cs)
   \<and> (\<forall>q. q \<noteq> p \<longrightarrow> files (snd (member_fns cs (l, w))) q = files w q)
   \<and> log_file (fst (member_fns cs (l, w))) = Some p"
proof (induction cs arbitrary: l w c0)
  case Nil
  then show ?case by simp
next
  case (Cons c cs)
  then have nc: "\<not> is_change c" and rest: "list_all (\<lambda>c. \<not> is_change c) cs"
    by simp_all
  obtain l' w' where step: "member_fn c (l, w) = (l', w')"
    by (cases "member_fn c (l, w)")
  have keep: "log_file l' = Some p"
    using step Cons.prems(1) nc by (cases c) (auto simp: add_log_eq add_log2_eq set_log_level_def)
  have others: "\<forall>q. q \<noteq> p \<longrightarrow> files w' q = files w q"
    using step Cons.prems(1) nc
    by (cases c) (auto simp: add_log_eq add_log2_eq set_log_level_def ofstream_append_def)
  obtain c1 where c1: "files w' p = Some c1"
    and grown: "c1 @ expected_lines (level l') cs = c0 @ expected_lines (level l) (c # cs)"
    using step Cons.prems(1,2) nc
    by (cases c) (auto simp: add_log_eq add_log2_eq set_log_level_def ofstream_append_def)
  from Cons.IH [OF keep c1 rest] step others grown show ?case
    by simp
qed

section \<open>The accessor keeps one object\<close>

lemma get_instance_first:
  "get_instance i t f b (process0 w) =
     (0, \<lparr>objects = [fst (logging_ctor i t f b w)], instance = Some 0,
          env = snd (logging_ctor i t f b w)\<rparr>)"
  by (simp add: get_instance_def process0_def split_def Let_def)

lemma get_instance_single: "single p \<Longrightarrow> get_instance i t f b p = (0, p)"
  by (simp add: get_instance_def single_def)

lemma on_instance_single: "single p \<Longrightarrow> single (on_instance c p)"
  by (simp add: on_instance_def single_def split_def Let_def)

lemma step_single: "single p \<Longrightarrow> single (step c p)"
  by (cases c) (simp_all add: get_instance_single on_instance_single)

lemma run_single: "single p \<Longrightarrow> single (run cs p)"
  by (induction cs arbitrary: p) (simp_all add: step_single)

section \<open>Line terminators in a record\<close>

lemma formatField_set: "set (formatField s n) \<subseteq> insert CHR '' '' (set s)"
  by (auto simp: formatField_def dest: in_set_takeD)

lemma logLevelToString_no_newline: "CHR ''\<newline>'' \<notin> set (logLevelToString lvl)"
  by (simp add: logLevelToString_def)

lemma formatField_no_newline:
  "CHR ''\<newline>'' \<notin> set s \<Longrightarrow> CHR ''\<newline>'' \<notin> set (formatField s n)"
  using formatField_set [of s n] by auto

lemma expected_line_one_newline:
  assumes "CHR ''\<newline>'' \<notin> set t" "CHR ''\<newline>'' \<notin> set origin"
    "CHR ''\<newline>'' \<notin> set message"
  shows "count_list (expected_line t lvl origin message) CHR ''\<newline>'' = 1"
proof -
  have "count_list (formatField t 15) CHR ''\<newline>'' = 0"
    "count_list (formatField (logLevelToString lvl) 15) CHR ''\<newline>'' = 0"
    "count_list (formatField origin 15) CHR ''\<newline>'' = 0"
    "count_list message CHR ''\<newline>'' = 0"
    using assms
    by (simp_all add: count_list_0_iff formatField_no_newline logLevelToString_no_newline)
  then show ?thesis
    by (simp add: expected_line_def)
qed


section \<open>Emission of a record\<close>

text \<open>
  Claim C3. For every level, origin and message, a call of the three-argument \<open>add_log\<close>
  on a logger whose console flag is set appends exactly one record to standard output:
  the time, the level name and the origin, each in brackets and cut or padded to 15
  characters, then the message and the line terminator, in this order. The record is
  one line whenever the time, the origin and the message hold no line terminator. This
  is so for every value of the level argument and of the stored level (the member
  \<open>level\<close> of the object does not occur in the result): no call is suppressed. The
  object itself is left as it was.
\<close>

theorem add_log_no_suppression:
  assumes "print_log l"
  shows "cout (snd (add_log t lvl origin message (l, w))) =
           cout w @ ''['' @ formatField t 15 @ ''] ['' @ formatField (logLevelToString lvl) 15
                  @ ''] ['' @ formatField origin 15 @ ''] '' @ message @ ''\<newline>''
         \<and> length (formatField t 15) = 15
         \<and> length (formatField (logLevelToString lvl) 15) = 15
         \<and> length (formatField origin 15) = 15
         \<and> (CHR ''\<newline>'' \<notin> set (t @ origin @ message) \<longrightarrow>
              count_list (''['' @ formatField t 15 @ ''] [''
                  @ formatField (logLevelToString lvl) 15 @ ''] [''
                  @ formatField origin 15 @ ''] '' @ message @ ''\<newline>'') CHR ''\<newline>'' = 1)
         \<and> fst (add_log t lvl origin message (l, w)) = l"
proof -
  have "cout (snd (add_log t lvl origin message (l, w))) =
          cout w @ expected_line t lvl origin message"
    using assms by (simp add: add_log_eq ofstream_append_def split: option.split)
  moreover have "CHR ''\<newline>'' \<notin> set (t @ origin @ message) \<longrightarrow>
      count_list (expected_line t lvl origin message) CHR ''\<newline>'' = 1"
    using expected_line_one_newline [of t origin message lvl] by simp
  ultimately show ?thesis
    by (simp add: expected_line_def formatField_length add_log_eq)
qed

theorem add_log_no_suppression_witness:
  "cout (snd (add_log ''22:02:51.866'' INFO ''log_function'' ''Logging from thread''
      (\<lparr>print_log = True, filename = ''app'', log_file = None, level = FATAL\<rparr>,
       \<lparr>openable = (\<lambda>p. True), files = Map.empty, cout = [], cerr = []\<rparr>)))
   = ''[22:02:51.866   ] [INFO           ] [log_function   ] Logging from thread\<newline>''"
proof -
  have h: "print_log \<lparr>print_log = True, filename = ''app'', log_file = None, level = FATAL\<rparr>"
    by simp
  have fields: "formatField ''22:02:51.866'' 15 = ''22:02:51.866   ''"
    "formatField (logLevelToString INFO) 15 = ''INFO           ''"
    "formatField ''log_function'' 15 = ''log_function   ''"
    by code_simp+
  from add_log_no_suppression [OF h, of "''22:02:51.866''" INFO "''log_function''"
      "''Logging from thread''"
      "\<lparr>openable = (\<lambda>p. True), files = Map.empty, cout = [], cerr = []\<rparr>"]
  show ?thesis
    by (simp add: fields)
qed

text \<open>
  Claim C6. For every origin, message and logger state, the two-argument \<open>add_log\<close>
  (here \<open>add_log2\<close>) returns exactly what the three-argument one returns for the level
  stored in the object: the same object, the same standard output and the same files.
  After \<open>set_log_level lvl\<close> that stored level is \<open>lvl\<close>, so the two-argument call logs
  at the level set last, not at a constant of its own.
\<close>

theorem add_log2_uses_stored_level:
  "add_log2 t origin message s = add_log t (level (fst s)) origin message s
   \<and> add_log2 t origin message (set_log_level lvl s) =
       add_log t lvl origin message (set_log_level lvl s)
   \<and> level (fst (set_log_level lvl s)) = lvl"
  by (cases s) (simp add: add_log2_eq set_log_level_def)

theorem add_log2_uses_stored_level_witness:
  "cout (snd (add_log2 ''22:02:51.866'' ''log_function1'' ''Logging from thread1''
      (set_log_level ERROR
        (\<lparr>print_log = True, filename = ''app'', log_file = None, level = DEBUG\<rparr>,
         \<lparr>openable = (\<lambda>p. True), files = Map.empty, cout = [], cerr = []\<rparr>))))
   = ''[22:02:51.866   ] [ERROR          ] [log_function1  ] Logging from thread1\<newline>''"
proof -
  have line: "expected_line ''22:02:51.866'' ERROR ''log_function1'' ''Logging from thread1''
      = ''[22:02:51.866   ] [ERROR          ] [log_function1  ] Logging from thread1\<newline>''"
    by code_simp
  from add_log2_uses_stored_level [of "''22:02:51.866''" "''log_function1''"
      "''Logging from thread1''"
      "(\<lparr>print_log = True, filename = ''app'', log_file = None, level = DEBUG\<rparr>,
        \<lparr>openable = (\<lambda>p. True), files = Map.empty, cout = [], cerr = []\<rparr>)" ERROR]
  show ?thesis
    by (simp add: set_log_level_def add_log_eq line)
qed

section \<open>Opening the file\<close>

text \<open>
  Claim C8. For every non-empty caller-supplied name, the path handed to the open is
  the name with \<open>.log\<close> appended when the name holds no dot, and the name itself when
  it holds one, in the constructor and in \<open>change_log_file\<close> alike: when that path can
  be opened, the stream is open on it and the file exists afterwards; when it cannot,
  the stream has no file and the message on standard error names that same path.
\<close>

theorem opened_path_suffix:
  assumes "fname \<noteq> []"
  shows "let path = (if CHR ''.'' \<in> set fname then fname else fname @ ''.log'');
             (l1, w1) = logging_ctor i t fname b w;
             (l2, w2) = change_log_file fname (l, w)
         in log_file l1 = (if openable w path then Some path else None)
            \<and> log_file l2 = (if openable w path then Some path else None)
            \<and> (openable w path \<longrightarrow> files w1 path \<noteq> None \<and> files w2 path \<noteq> None)
            \<and> cerr w1 = cerr w @ (if openable w path then []
                                   else ''Can't open log file '' @ path @ ''\<newline>'')
            \<and> cerr w2 = cerr w @ (if openable w path then []
                                   else ''Can't open log file '' @ path @ ''\<newline>'')"
  using assms
  by (simp add: logging_ctor_eq change_log_file_eq add_log_eq target_path_def Let_def
        ofstream_append_def split: option.split)

theorem opened_path_suffix_witness:
  "log_file (fst (logging_ctor 0 ''22:02:51.865'' ''report'' True
      \<lparr>openable = (\<lambda>p. True), files = Map.empty, cout = [], cerr = []\<rparr>)) = Some ''report.log''
   \<and> log_file (fst (logging_ctor 0 ''22:02:51.865'' ''report.txt'' True
      \<lparr>openable = (\<lambda>p. True), files = Map.empty, cout = [], cerr = []\<rparr>)) = Some ''report.txt''
   \<and> log_file (fst (change_log_file ''report''
      (\<lparr>print_log = True, filename = ''app'', log_file = Some ''app.log'', level = 0\<rparr>,
       \<lparr>openable = (\<lambda>p. True), files = Map.empty, cout = [], cerr = []\<rparr>))) = Some ''report.log''
   \<and> log_file (fst (change_log_file ''report.txt''
      (\<lparr>print_log = True, filename = ''app'', log_file = Some ''app.log'', level = 0\<rparr>,
       \<lparr>openable = (\<lambda>p. True), files = Map.empty, cout = [], cerr = []\<rparr>))) = Some ''report.txt''"
proof -
  have ne: "''report'' \<noteq> []" "''report.txt'' \<noteq> []"
    by simp_all
  note a = opened_path_suffix [OF ne(1), of 0 "''22:02:51.865''" True
      "\<lparr>openable = (\<lambda>p. True), files = Map.empty, cout = [], cerr = []\<rparr>"
      "\<lparr>print_log = True, filename = ''app'', log_file = Some ''app.log'', level = 0\<rparr>"]
  note b = opened_path_suffix [OF ne(2), of 0 "''22:02:51.865''" True
      "\<lparr>openable = (\<lambda>p. True), files = Map.empty, cout = [], cerr = []\<rparr>"
      "\<lparr>print_log = True, filename = ''app'', log_file = Some ''app.log'', level = 0\<rparr>"]
  from a b show ?thesis
    by (simp add: Let_def split_def)
qed


section \<open>A logger without any sink\<close>

text \<open>
  Claim C4. When the constructor gets a non-empty name whose file cannot be opened and
  the console flag \<open>False\<close>, the object it makes has no active sink: the stored console
  flag is still \<open>False\<close> (the assignment of the failure branch writes the parameter),
  the stream has no file, and neither the bootstrap record of the constructor nor any
  later sequence of log and set-level calls changes standard output or any file.
\<close>

theorem logging_ctor_no_sink:
  assumes "fname \<noteq> []"
    and "\<not> openable w (if CHR ''.'' \<in> set fname then fname else fname @ ''.log'')"
    and "list_all (\<lambda>c. \<not> is_change c) cs"
  shows "let (l1, w1) = logging_ctor i t fname False w;
             (l2, w2) = member_fns cs (l1, w1)
         in print_log l1 = False \<and> log_file l1 = None
            \<and> cout w1 = cout w \<and> files w1 = files w
            \<and> print_log l2 = False \<and> log_file l2 = None
            \<and> cout w2 = cout w \<and> files w2 = files w"
proof -
  define l1 where "l1 = \<lparr>print_log = False, filename = fname, log_file = None, level = i\<rparr>"
  define w1 where
    "w1 = w\<lparr>cerr := cerr w @ ''Can't open log file '' @ target_path fname @ ''\<newline>''\<rparr>"
  have cl: "\<not> openable w (target_path fname)"
    using assms(2) by (simp add: target_path_def)
  have ctor: "logging_ctor i t fname False w = (l1, w1)"
    using assms(1) cl by (simp add: logging_ctor_eq add_log_eq l1_def w1_def)
  have a: "\<not> print_log l1" and b: "log_file l1 = None"
    by (simp_all add: l1_def)
  obtain l2 w2 where m: "member_fns cs (l1, w1) = (l2, w2)"
    by (cases "member_fns cs (l1, w1)")
  from silent_member_fns [OF a b assms(3), of w1] m
  have "w2 = w1" and "\<not> print_log l2" and "log_file l2 = None"
    by simp_all
  with ctor m a b show ?thesis
    by (simp add: w1_def)
qed

theorem logging_ctor_no_sink_witness:
  "cout (snd (member_fns
      [Add_log ''22:02:51.866'' INFO ''log_function'' ''Logging from thread'',
       Set_log_level ERROR,
       Add_log2 ''22:02:51.867'' ''log_function1'' ''Logging from thread1'']
      (logging_ctor 0 ''22:02:51.865'' ''app'' False
        \<lparr>openable = (\<lambda>p. False), files = Map.empty, cout = [], cerr = []\<rparr>))) = []
   \<and> files (snd (member_fns
      [Add_log ''22:02:51.866'' INFO ''log_function'' ''Logging from thread'',
       Set_log_level ERROR,
       Add_log2 ''22:02:51.867'' ''log_function1'' ''Logging from thread1'']
      (logging_ctor 0 ''22:02:51.865'' ''app'' False
        \<lparr>openable = (\<lambda>p. False), files = Map.empty, cout = [], cerr = []\<rparr>))) = Map.empty
   \<and> print_log (fst (logging_ctor 0 ''22:02:51.865'' ''app'' False
        \<lparr>openable = (\<lambda>p. False), files = Map.empty, cout = [], cerr = []\<rparr>)) = False"
proof -
  have h1: "''app'' \<noteq> []"
    by simp
  have h2: "\<not> openable \<lparr>openable = (\<lambda>p. False), files = Map.empty, cout = [], cerr = []\<rparr>
      (if CHR ''.'' \<in> set ''app'' then ''app'' else ''app'' @ ''.log'')"
    by simp
  have h3: "list_all (\<lambda>c. \<not> is_change c)
      [Add_log ''22:02:51.866'' INFO ''log_function'' ''Logging from thread'',
       Set_log_level ERROR,
       Add_log2 ''22:02:51.867'' ''log_function1'' ''Logging from thread1'']"
    by simp
  from logging_ctor_no_sink [OF h1 h2 h3, of 0 "''22:02:51.865''"] show ?thesis
    by (simp add: Let_def split_def)
qed

section \<open>Switching the file\<close>

text \<open>
  Claim C7. After a successful \<open>change_log_file\<close> (a non-empty name whose path can be
  opened; for the name \<open>other\<close> the path is \<open>other.log\<close>), the stream is attached to the
  new path and to nothing else, the new file keeps the content it had, and every later
  sequence of log and set-level calls appends its records, in order, at the end of the
  new file, while every other file, the one that was open before among them, stays as
  it was.
\<close>

theorem change_log_file_switches_sink:
  assumes "new_filename \<noteq> []"
    and "openable w (if CHR ''.'' \<in> set new_filename then new_filename
                     else new_filename @ ''.log'')"
    and "list_all (\<lambda>c. \<not> is_change c) cs"
  shows "let path = (if CHR ''.'' \<in> set new_filename then new_filename
                     else new_filename @ ''.log'');
             before = (case files w path of None \<Rightarrow> [] | Some c \<Rightarrow> c);
             (l1, w1) = change_log_file new_filename (l, w);
             (l2, w2) = member_fns cs (l1, w1)
         in log_file l1 = Some path \<and> log_file l2 = Some path
            \<and> files w1 path = Some before
            \<and> files w2 path = Some (before @ expected_lines (level l) cs)
            \<and> (\<forall>q. q \<noteq> path \<longrightarrow> files w2 q = files w q)"
proof -
  define path where "path = target_path new_filename"
  define before where "before = (case files w path of None \<Rightarrow> [] | Some c \<Rightarrow> c)"
  define l1 where "l1 = l\<lparr>filename := path, log_file := Some path\<rparr>"
  define w1 where "w1 = w\<lparr>files := (files w)(path \<mapsto> before)\<rparr>"
  have op: "openable w path"
    using assms(2) by (simp add: path_def target_path_def)
  have ch: "change_log_file new_filename (l, w) = (l1, w1)"
    using assms(1) op by (simp add: change_log_file_eq path_def l1_def w1_def before_def)
  have a: "log_file l1 = Some path" and b: "files w1 path = Some before"
    and lv: "level l1 = level l"
    by (simp_all add: l1_def w1_def)
  note seq = file_member_fns [OF a b assms(3)]
  have frame: "\<forall>q. q \<noteq> path \<longrightarrow> files w1 q = files w q"
    by (simp add: w1_def)
  obtain l2 w2 where m: "member_fns cs (l1, w1) = (l2, w2)"
    by (cases "member_fns cs (l1, w1)")
  from seq m lv frame a b have
    "log_file l1 = Some path \<and> log_file l2 = Some path \<and> files w1 path = Some before
     \<and> files w2 path = Some (before @ expected_lines (level l) cs)
     \<and> (\<forall>q. q \<noteq> path \<longrightarrow> files w2 q = files w q)"
    by simp
  with ch m show ?thesis
    by (simp add: path_def before_def target_path_def Let_def)
qed

theorem change_log_file_switches_sink_witness:
  "files (snd (member_fns
      [Add_log ''22:02:51.866'' INFO ''log_function'' ''Logging from thread'']
      (change_log_file ''other''
        (\<lparr>print_log = False, filename = ''app'', log_file = Some ''app.log'', level = DEBUG\<rparr>,
         \<lparr>openable = (\<lambda>p. True), files = [''app.log'' \<mapsto> ''old'', ''other.log'' \<mapsto> ''kept''],
          cout = [], cerr = []\<rparr>)))) ''other.log''
   = Some ''kept[22:02:51.866   ] [INFO           ] [log_function   ] Logging from thread\<newline>''
   \<and> files (snd (member_fns
      [Add_log ''22:02:51.866'' INFO ''log_function'' ''Logging from thread'']
      (change_log_file ''other''
        (\<lparr>print_log = False, filename = ''app'', log_file = Some ''app.log'', level = DEBUG\<rparr>,
         \<lparr>openable = (\<lambda>p. True), files = [''app.log'' \<mapsto> ''old'', ''other.log'' \<mapsto> ''kept''],
          cout = [], cerr = []\<rparr>)))) ''app.log''
   = Some ''old''"
proof -
  have h1: "''other'' \<noteq> []"
    by simp
  have h2: "openable \<lparr>openable = (\<lambda>p. True),
        files = [''app.log'' \<mapsto> ''old'', ''other.log'' \<mapsto> ''kept''], cout = [], cerr = []\<rparr>
      (if CHR ''.'' \<in> set ''other'' then ''other'' else ''other'' @ ''.log'')"
    by simp
  have h3: "list_all (\<lambda>c. \<not> is_change c)
      [Add_log ''22:02:51.866'' INFO ''log_function'' ''Logging from thread'']"
    by simp
  have line: "expected_line ''22:02:51.866'' INFO ''log_function'' ''Logging from thread''
      = ''[22:02:51.866   ] [INFO           ] [log_function   ] Logging from thread\<newline>''"
    by code_simp
  from change_log_file_switches_sink [OF h1 h2 h3,
      of "\<lparr>print_log = False, filename = ''app'', log_file = Some ''app.log'', level = DEBUG\<rparr>"]
  show ?thesis
    by (simp add: Let_def split_def line)
qed


section \<open>The singleton\<close>

text \<open>
  Claim C5. Take any two calls of \<open>get_instance\<close>, with any arguments: the first call of
  the process, and a later one after any sequence of further accessor and member calls.
  Both return the same address. The first call constructs the object from its own
  arguments; the later call returns the existing instance and leaves the whole state
  as it was, whatever its arguments are. The process holds exactly one \<open>logging\<close> object
  after the first call and after the later one, so never more than one.
\<close>

theorem get_instance_singleton:
  assumes "get_instance i1 t1 f1 b1 (process0 w) = (a1, p1)"
    and "get_instance i2 t2 f2 b2 (run cs p1) = (a2, p2)"
  shows "a2 = a1 \<and> p2 = run cs p1
         \<and> objects p1 = [fst (logging_ctor i1 t1 f1 b1 w)]
         \<and> env p1 = snd (logging_ctor i1 t1 f1 b1 w)
         \<and> instance p1 = Some a1 \<and> instance p2 = Some a1
         \<and> length (objects p1) = 1 \<and> length (objects p2) = 1"
proof -
  from assms(1) have first: "a1 = 0"
    and p1: "p1 = \<lparr>objects = [fst (logging_ctor i1 t1 f1 b1 w)], instance = Some 0,
                    env = snd (logging_ctor i1 t1 f1 b1 w)\<rparr>"
    by (simp_all add: get_instance_first)
  have "single p1"
    by (simp add: p1 single_def)
  then have s: "single (run cs p1)"
    by (rule run_single)
  with assms(2) have "a2 = 0" and "p2 = run cs p1"
    by (simp_all add: get_instance_single)
  with first p1 s show ?thesis
    by (simp add: single_def)
qed

theorem get_instance_singleton_witness:
  "fst (get_instance 9 ''22:02:52.000'' ''other.txt'' False
      (run [On_instance (Set_log_level ERROR),
            Get_instance 7 ''22:02:51.900'' ''third'' False]
        (snd (get_instance 0 ''22:02:51.865'' ''app'' True
          (process0 \<lparr>openable = (\<lambda>p. True), files = Map.empty, cout = [], cerr = []\<rparr>)))))
   = fst (get_instance 0 ''22:02:51.865'' ''app'' True
          (process0 \<lparr>openable = (\<lambda>p. True), files = Map.empty, cout = [], cerr = []\<rparr>))
   \<and> length (objects (snd (get_instance 9 ''22:02:52.000'' ''other.txt'' False
      (run [On_instance (Set_log_level ERROR),
            Get_instance 7 ''22:02:51.900'' ''third'' False]
        (snd (get_instance 0 ''22:02:51.865'' ''app'' True
          (process0 \<lparr>openable = (\<lambda>p. True), files = Map.empty, cout = [], cerr = []\<rparr>))))))) = 1
   \<and> map filename (objects (snd (get_instance 0 ''22:02:51.865'' ''app'' True
          (process0 \<lparr>openable = (\<lambda>p. True), files = Map.empty, cout = [], cerr = []\<rparr>))))
     = [''app'']"
proof -
  let ?w = "\<lparr>openable = (\<lambda>p. True), files = Map.empty, cout = [], cerr = []\<rparr>"
  let ?cs = "[On_instance (Set_log_level ERROR), Get_instance 7 ''22:02:51.900'' ''third'' False]"
  let ?first = "get_instance 0 ''22:02:51.865'' ''app'' True (process0 ?w)"
  let ?later = "get_instance 9 ''22:02:52.000'' ''other.txt'' False (run ?cs (snd ?first))"
  have h1: "?first = (fst ?first, snd ?first)"
    by (rule surjective_pairing)
  have h2: "?later = (fst ?later, snd ?later)"
    by (rule surjective_pairing)
  note r = get_instance_singleton [OF h1 h2]
  have same: "fst ?later = fst ?first"
    using r by blast
  have one: "length (objects (snd ?later)) = 1"
    using r by blast
  have "objects (snd ?first) = [fst (logging_ctor 0 ''22:02:51.865'' ''app'' True ?w)]"
    using r by blast
  then have made: "map filename (objects (snd ?first)) = [''app'']"
    by (simp add: logging_ctor_eq add_log_eq)
  from same one made show ?thesis
    by blast
qed

section \<open>Failed opens at concrete inputs\<close>

text \<open>
  Claim C1, evaluated where it fails. The constructor is called with the name \<open>app\<close>
  and the console flag \<open>False\<close> where no file can be opened. It returns (nothing is
  raised) with the message naming \<open>app.log\<close> on standard error and no file attached,
  but the console flag of the object is still \<open>False\<close>: console emission is not forced
  on, and the bootstrap record reaches no sink.
\<close>

theorem logging_ctor_failed_open_console_stays_off:
  "logging_ctor 0 ''22:02:51.865'' ''app'' False
      \<lparr>openable = (\<lambda>p. False), files = Map.empty, cout = [], cerr = []\<rparr>
   = (\<lparr>print_log = False, filename = ''app'', log_file = None, level = 0\<rparr>,
      \<lparr>openable = (\<lambda>p. False), files = Map.empty, cout = [],
       cerr = ''Can't open log file app.log\<newline>''\<rparr>)"
  by (simp add: logging_ctor_eq target_path_def add_log_eq)

text \<open>
  Claim C2, evaluated where it fails. A logger that prints to the console and to
  \<open>app.log\<close> is told to change to \<open>other\<close> where no file can be opened. The message
  naming \<open>other.log\<close> goes to standard error and the stream has no file, but the
  console flag is now \<open>False\<close>: the logger is left with no sink, and the next record
  is written nowhere.
\<close>

theorem change_log_file_failed_open_console_off:
  "change_log_file ''other''
      (\<lparr>print_log = True, filename = ''app'', log_file = Some ''app.log'', level = 1\<rparr>,
       \<lparr>openable = (\<lambda>p. False), files = [''app.log'' \<mapsto> ''old''], cout = [], cerr = []\<rparr>)
   = (\<lparr>print_log = False, filename = ''other.log'', log_file = None, level = 1\<rparr>,
      \<lparr>openable = (\<lambda>p. False), files = [''app.log'' \<mapsto> ''old''], cout = [],
       cerr = ''Can't open log file other.log\<newline>''\<rparr>)
   \<and> snd (add_log ''22:02:51.866'' INFO ''log_function'' ''Logging from thread''
       (change_log_file ''other''
         (\<lparr>print_log = True, filename = ''app'', log_file = Some ''app.log'', level = 1\<rparr>,
          \<lparr>openable = (\<lambda>p. False), files = [''app.log'' \<mapsto> ''old''], cout = [], cerr = []\<rparr>)))
     = snd (change_log_file ''other''
         (\<lparr>print_log = True, filename = ''app'', log_file = Some ''app.log'', level = 1\<rparr>,
          \<lparr>openable = (\<lambda>p. False), files = [''app.log'' \<mapsto> ''old''], cout = [], cerr = []\<rparr>))"
  by (simp add: change_log_file_eq target_path_def add_log_eq)

end
